theory Spec2Isabelle
  imports Main "HOL-Library.Sublist"
begin

section \<open>The router of the Iris web framework: data model\<close>

text \<open>
  The embedded source is the router file of the repository (\<open>src/unnamed/part_000\<close>):
  \<open>newRouter\<close>, \<open>addRoute\<close>, \<open>RouteByName\<close>, \<open>UriOf\<close>, \<open>optimize\<close>,
  \<open>notFound\<close>, \<open>serveFunc\<close> and \<open>serveDomainFunc\<close>. Go strings are byte
  sequences, here \<open>string\<close> (a list of characters). The linked list of trees
  (\<open>garden.first\<close>, \<open>tree.next\<close>) is a list in registration order.
\<close>

subsection \<open>Constants (lines 12-45)\<close>

definition PrefixDynamicSubdomain :: string where
  "PrefixDynamicSubdomain = ''www.iris_subd0mAin.iris''"

definition MethodGet :: string where
  "MethodGet = ''GET''"

definition MethodOptions :: string where
  "MethodOptions = ''OPTIONS''"

subsection \<open>Types declared outside the router file\<close>

text \<open>
  Modelled from the spec: the handler chain reference of a route. Only the identity of
  a handler matters to the router; the two handlers that \<open>optimize\<close> registers for the
  profiling route are named.
\<close>

datatype handler = HtmlMiddleware | PprofAction | UserHandler nat

text \<open>
  Modelled from the spec: the Route descriptor (method, path pattern, optional name,
  owning domain, handler chain). The router reads it through the accessors
  \<open>GetName\<close> and \<open>GetMethod\<close> of the interface \<open>IRoute\<close>.
\<close>

record Route =
  GetName :: string
  GetMethod :: string
  GetPath :: string
  GetDomain :: string
  GetMiddleware :: "handler list"

text \<open>The zero value \<open>&Route{}\<close>: every field empty.\<close>

definition emptyRoute :: Route where
  "emptyRoute = \<lparr>GetName = [], GetMethod = [], GetPath = [], GetDomain = [], GetMiddleware = []\<rparr>"

text \<open>
  Modelled from the spec: the Tree type (method, domain, the flags \<open>hosts\<close> and
  \<open>cors\<close>, and the trie). The trie is kept as the routes planted in it; its matching
  algorithm \<open>tree.serve\<close> is outside the router file and is a parameter of the
  dispatch functions below. The field \<open>method\<close> of the source is \<open>tree_method\<close>
  here, \<open>method\<close> being a keyword of Isabelle.
\<close>

record tree =
  tree_method :: string
  domain :: string
  hosts :: bool
  cors :: bool
  planted :: "Route list"

text \<open>What the router reads of a \<open>fasthttp.RequestCtx\<close>.\<close>

record RequestCtx =
  Method :: string
  Host :: string
  Path :: string
  RequestURI :: string

text \<open>
  The pooled \<open>Context\<close>: the request it was last reset to (\<open>None\<close> when fresh).
\<close>

record Context =
  boundRequest :: "RequestCtx option"

record Config =
  DisablePathEscape :: bool
  Profile :: bool
  ProfilePath :: string

text \<open>
  The station: its configuration and the host its server is bound to
  (\<open>r.station.server.Host()\<close>).
\<close>

record Iris =
  config :: Config
  serverHost :: string

subsection \<open>The router struct (lines 58-74)\<close>

text \<open>
  \<open>ServeRequest\<close> holds one of the two method values \<open>r.serveFunc\<close> and
  \<open>r.serveDomainFunc\<close>. Both are bound to the pointer \<open>r\<close> and read the router's
  fields when they are called, so the field is the choice between them.
  \<open>errorPool\<close> is the \<open>sync.Pool\<close> of contexts as a free list.
\<close>

datatype serveKind = ServeFunc | ServeDomainFunc

record router =
  station :: Iris
  garden :: "tree list"
  methodMatch :: "string \<Rightarrow> string \<Rightarrow> bool"
  getRequestPath :: "RequestCtx \<Rightarrow> string"
  lookups :: "Route list"
  ServeRequest :: serveKind
  errorPool :: "Context list"
  optimized :: bool

section \<open>Operations\<close>

subsection \<open>Method matching and path extraction (lines 76-89)\<close>

definition methodMatchCorsFunc :: "string \<Rightarrow> string \<Rightarrow> bool" where
  "methodMatchCorsFunc m1 reqMethod = (m1 = reqMethod \<or> reqMethod = MethodOptions)"

definition methodMatchFunc :: "string \<Rightarrow> string \<Rightarrow> bool" where
  "methodMatchFunc m1 m2 = (m1 = m2)"

definition getRequestPathDefault :: "RequestCtx \<Rightarrow> string" where
  "getRequestPathDefault reqCtx = Path reqCtx"

subsection \<open>newRouter and addRoute (lines 92-117)\<close>

text \<open>\<open>station.newContextPool()\<close>: a pool that holds no context yet.\<close>

definition newContextPool :: "Context list" where
  "newContextPool = []"

definition newRouter :: "Iris \<Rightarrow> router" where
  "newRouter st =
     \<lparr>station = st, garden = [], methodMatch = methodMatchFunc,
      getRequestPath = getRequestPathDefault, lookups = [], ServeRequest = ServeFunc,
      errorPool = newContextPool, optimized = False\<rparr>"

text \<open>
  \<open>addRoute\<close> appends the route to \<open>lookups\<close> and plants it. \<open>Garden.Plant\<close> is
  outside the router file: it is the parameter \<open>Plant\<close>, from the tree list and the
  route to the new tree list.
\<close>

definition addRoute :: "(tree list \<Rightarrow> Route \<Rightarrow> tree list) \<Rightarrow> router \<Rightarrow> Route \<Rightarrow> router" where
  "addRoute Plant r route =
     r\<lparr>lookups := lookups r @ [route], garden := Plant (garden r) route\<rparr>"

subsection \<open>RouteByName and UriOf (lines 121-145)\<close>

fun RouteByName_loop :: "Route list \<Rightarrow> string \<Rightarrow> Route" where
  "RouteByName_loop [] routeName = emptyRoute"
| "RouteByName_loop (route # rest) routeName =
     (if GetName route = routeName then route else RouteByName_loop rest routeName)"

definition RouteByName :: "router \<Rightarrow> string \<Rightarrow> Route" where
  "RouteByName r routeName = RouteByName_loop (lookups r) routeName"

datatype error = ErrRenderRouteNotFound string

text \<open>
  \<open>UriOf\<close> returns the pair (uri, error) of the source; \<open>None\<close> is the nil error.
  \<open>route.ParseURI\<close> is outside the router file and is the parameter \<open>ParseURI\<close>.
\<close>

definition UriOf :: "(Route \<Rightarrow> 'a list \<Rightarrow> string) \<Rightarrow> router \<Rightarrow> string \<Rightarrow> 'a list \<Rightarrow> string \<times> error option" where
  "UriOf ParseURI r routeName args =
     (let route = RouteByName r routeName
      in if GetMethod route = [] then ([], Some (ErrRenderRouteNotFound routeName))
         else (ParseURI route args, None))"

subsection \<open>cors, hosts and optimize (lines 148-236)\<close>

text \<open>
  \<open>garden.visitAll\<close> walks the tree list in order; the callback sets \<open>has\<close> and
  never clears it.
\<close>

definition router_cors :: "router \<Rightarrow> bool" where
  "router_cors r = foldl (\<lambda>has t. if cors t then True else has) False (garden r)"

definition router_hosts :: "router \<Rightarrow> bool" where
  "router_hosts r = foldl (\<lambda>has t. if hosts t then True else has) False (garden r)"

text \<open>
  Modelled from the spec: \<open>r.Get(path, handlers...)\<close> of the route registry, which
  builds the descriptor of a GET route at the path and hands it to \<open>addRoute\<close>.
\<close>

definition router_Get :: "(tree list \<Rightarrow> Route \<Rightarrow> tree list) \<Rightarrow> router \<Rightarrow> string \<Rightarrow> handler list \<Rightarrow> router" where
  "router_Get Plant r path handlers =
     addRoute Plant r
       \<lparr>GetName = [], GetMethod = MethodGet, GetPath = path, GetDomain = [],
        GetMiddleware = handlers\<rparr>"

definition optimize :: "(tree list \<Rightarrow> Route \<Rightarrow> tree list) \<Rightarrow> router \<Rightarrow> router" where
  "optimize Plant r =
     (if optimized r then r
      else
        let r1 = (if router_cors r then r\<lparr>methodMatch := methodMatchCorsFunc\<rparr> else r);
            r2 = (if router_hosts r1 then r1\<lparr>ServeRequest := ServeDomainFunc\<rparr> else r1);
            r3 = (if DisablePathEscape (config (station r2))
                  then r2\<lparr>getRequestPath := RequestURI\<rparr> else r2);
            r4 = (if Profile (config (station r3)) \<and> ProfilePath (config (station r3)) \<noteq> []
                  then router_Get Plant r3 (ProfilePath (config (station r3)) @ ''/*action'')
                         [HtmlMiddleware, PprofAction]
                  else r3)
        in r4\<lparr>optimized := True\<rparr>)"

subsection \<open>notFound (lines 240-245)\<close>

text \<open>
  \<open>errorPool.Get()\<close> hands out a pooled context, or a new one when the pool is empty;
  \<open>errorPool.Put\<close> gives one back.
\<close>

definition pool_Get :: "Context list \<Rightarrow> Context \<times> Context list" where
  "pool_Get pool = (case pool of [] \<Rightarrow> (\<lparr>boundRequest = None\<rparr>, []) | c # cs \<Rightarrow> (c, cs))"

definition pool_Put :: "Context \<Rightarrow> Context list \<Rightarrow> Context list" where
  "pool_Put c pool = c # pool"

definition Reset :: "Context \<Rightarrow> RequestCtx \<Rightarrow> Context" where
  "Reset ctx reqCtx = ctx\<lparr>boundRequest := Some reqCtx\<rparr>"

text \<open>
  A call either returns or panics. \<open>ctx.NotFound()\<close> runs the error handler of
  status 404, which callers may replace; it is the parameter \<open>NotFound\<close>, and a
  handler that panics is the value \<open>Panic\<close>. The statements of \<open>notFound\<close> run in
  order and no \<open>defer\<close> or \<open>recover\<close> stands in it, so a panic leaves the function
  at the call that raised it.
\<close>

datatype 'a outcome = Return 'a | Panic

definition notFound :: "(Context \<Rightarrow> Context outcome) \<Rightarrow> router \<Rightarrow> RequestCtx \<Rightarrow> router outcome \<times> router" where
  "notFound NotFound r reqCtx =
     (let (ctx, pool1) = pool_Get (errorPool r);
          r1 = r\<lparr>errorPool := pool1\<rparr>;
          ctx1 = Reset ctx reqCtx
      in case NotFound ctx1 of
           Panic \<Rightarrow> (Panic, r1)
         | Return ctx2 \<Rightarrow>
             (let r2 = r1\<lparr>errorPool := pool_Put ctx2 (errorPool r1)\<rparr> in (Return r2, r2)))"

subsection \<open>strings.Count and strings.Index of the Go library\<close>

text \<open>
  \<open>strings.Count(s, substr)\<close>: the number of non-overlapping instances of \<open>substr\<close>
  in \<open>s\<close> (for an empty \<open>substr\<close>, one more than the length of an ASCII \<open>s\<close>).
  \<open>strings.Index(s, substr)\<close>: the index of the first instance, or -1.
\<close>

function Count :: "string \<Rightarrow> string \<Rightarrow> nat" where
  "Count s substr =
     (if substr = [] then length s + 1
      else if s = [] then 0
      else if prefix substr s then 1 + Count (drop (length substr) s) substr
      else Count (tl s) substr)"
  by pat_completeness auto
termination
  by (relation "measure (\<lambda>(s, substr). length s)") auto

declare Count.simps [simp del]

fun Index_from :: "nat \<Rightarrow> string \<Rightarrow> string \<Rightarrow> int" where
  "Index_from i [] substr = (if substr = [] then int i else - 1)"
| "Index_from i (c # s) substr =
     (if prefix substr (c # s) then int i else Index_from (Suc i) s substr)"

definition Index :: "string \<Rightarrow> string \<Rightarrow> int" where
  "Index s substr = Index_from 0 s substr"

subsection \<open>serveFunc and serveDomainFunc (lines 254-308)\<close>

text \<open>
  A dispatch is recorded as the calls of \<open>tree.serve\<close> it made, in order, each with the
  tree and the path passed, and how it ended: \<open>Served\<close> when a tree's \<open>serve\<close>
  returned true, \<open>AnsweredNotFound\<close> when \<open>r.notFound(reqCtx)\<close> was called.
\<close>

datatype answer = Served | AnsweredNotFound

type_synonym dispatch = "(tree \<times> string) list \<times> answer"

fun serveFunc_loop ::
  "(string \<Rightarrow> string \<Rightarrow> bool) \<Rightarrow> (tree \<Rightarrow> RequestCtx \<Rightarrow> string \<Rightarrow> bool) \<Rightarrow>
     RequestCtx \<Rightarrow> string \<Rightarrow> string \<Rightarrow> tree list \<Rightarrow> dispatch" where
  "serveFunc_loop mm serve reqCtx meth path [] = ([], AnsweredNotFound)"
| "serveFunc_loop mm serve reqCtx meth path (t # rest) =
     (if mm (tree_method t) meth
      then (if \<not> serve t reqCtx path then ([(t, path)], AnsweredNotFound)
            else ([(t, path)], Served))
      else serveFunc_loop mm serve reqCtx meth path rest)"

definition serveFunc :: "(tree \<Rightarrow> RequestCtx \<Rightarrow> string \<Rightarrow> bool) \<Rightarrow> router \<Rightarrow> RequestCtx \<Rightarrow> dispatch" where
  "serveFunc serve r reqCtx =
     (let meth = Method reqCtx;
          path = getRequestPath r reqCtx
      in serveFunc_loop (methodMatch r) serve reqCtx meth path (garden r))"

text \<open>Lines 278-285: the full domain derived from the Host header.\<close>

definition fulldomain_of :: "string \<Rightarrow> string \<Rightarrow> string" where
  "fulldomain_of srvHost host =
     (if Count host ''.'' \<ge> 2 \<and> host \<noteq> srvHost
      then (let portIdx = Index host '':''
            in if portIdx \<noteq> - 1 then take (nat portIdx) host else host)
      else [])"

text \<open>Lines 290-296: the assignment to the variable \<open>path\<close> at one tree.\<close>

definition domain_path :: "string \<Rightarrow> tree \<Rightarrow> string \<Rightarrow> string" where
  "domain_path fulldomain t path =
     (if hosts t \<and> domain t \<noteq> [] \<and> fulldomain \<noteq> []
      then (if domain t = fulldomain then fulldomain @ path
            else if Index (domain t) PrefixDynamicSubdomain \<noteq> - 1
                 then PrefixDynamicSubdomain @ path
                 else path)
      else path)"

fun serveDomainFunc_loop ::
  "(string \<Rightarrow> string \<Rightarrow> bool) \<Rightarrow> (tree \<Rightarrow> RequestCtx \<Rightarrow> string \<Rightarrow> bool) \<Rightarrow>
     RequestCtx \<Rightarrow> string \<Rightarrow> string \<Rightarrow> string \<Rightarrow> tree list \<Rightarrow> dispatch" where
  "serveDomainFunc_loop mm serve reqCtx meth fulldomain path [] = ([], AnsweredNotFound)"
| "serveDomainFunc_loop mm serve reqCtx meth fulldomain path (t # rest) =
     (let path1 = domain_path fulldomain t path
      in if mm (tree_method t) meth
         then (if serve t reqCtx path1 then ([(t, path1)], Served)
               else (let (calls, ans) =
                           serveDomainFunc_loop mm serve reqCtx meth fulldomain path1 rest
                     in ((t, path1) # calls, ans)))
         else serveDomainFunc_loop mm serve reqCtx meth fulldomain path1 rest)"

definition serveDomainFunc :: "(tree \<Rightarrow> RequestCtx \<Rightarrow> string \<Rightarrow> bool) \<Rightarrow> router \<Rightarrow> RequestCtx \<Rightarrow> dispatch" where
  "serveDomainFunc serve r reqCtx =
     (let meth = Method reqCtx;
          host = Host reqCtx;
          fulldomain = fulldomain_of (serverHost (station r)) host;
          path = getRequestPath r reqCtx
      in serveDomainFunc_loop (methodMatch r) serve reqCtx meth fulldomain path (garden r))"

text \<open>The call \<open>r.ServeRequest(reqCtx)\<close> through the function field.\<close>

definition callServeRequest :: "(tree \<Rightarrow> RequestCtx \<Rightarrow> string \<Rightarrow> bool) \<Rightarrow> router \<Rightarrow> RequestCtx \<Rightarrow> dispatch" where
  "callServeRequest serve r reqCtx =
     (case ServeRequest r of
        ServeFunc \<Rightarrow> serveFunc serve r reqCtx
      | ServeDomainFunc \<Rightarrow> serveDomainFunc serve r reqCtx)"

section \<open>The domain-aware scan in the words of the specification\<close>

text \<open>
  The scan as the specification describes it (sections 4.4 and 8), to be compared with
  \<open>serveDomainFunc\<close>. \<open>lookup_path_spec\<close> is the lookup path of one tree: for a
  host-scoped tree and a derived subdomain, the request path with the literal subdomain
  in front (static match) or with the dynamic-subdomain prefix in front (the tree's
  domain contains it); otherwise the request path. The prefix is the first segment of
  the lookup path, so every tree's lookup path is made from the request path.
  \<open>domain_attempts\<close> keeps the trees whose method matches, in registration order,
  each with its lookup path. \<open>first_full_match\<close> tries the attempts in order: the
  first one that \<open>serve\<close> accepts ends the scan, and when none does the request is
  answered not-found.
\<close>

definition lookup_path_spec :: "string \<Rightarrow> tree \<Rightarrow> string \<Rightarrow> string" where
  "lookup_path_spec fulldomain t path =
     (if hosts t \<and> domain t \<noteq> [] \<and> fulldomain \<noteq> []
      then (if domain t = fulldomain then fulldomain @ path
            else if sublist PrefixDynamicSubdomain (domain t) then PrefixDynamicSubdomain @ path
            else path)
      else path)"

definition domain_attempts ::
  "(string \<Rightarrow> string \<Rightarrow> bool) \<Rightarrow> string \<Rightarrow> string \<Rightarrow> string \<Rightarrow> tree list \<Rightarrow> (tree \<times> string) list" where
  "domain_attempts mm meth fulldomain path ts =
     map (\<lambda>t. (t, lookup_path_spec fulldomain t path))
       (filter (\<lambda>t. mm (tree_method t) meth) ts)"

definition first_full_match ::
  "(tree \<Rightarrow> RequestCtx \<Rightarrow> string \<Rightarrow> bool) \<Rightarrow> RequestCtx \<Rightarrow> (tree \<times> string) list \<Rightarrow> dispatch" where
  "first_full_match serve reqCtx attempts =
     (case find (\<lambda>(t, p). serve t reqCtx p) attempts of
        None \<Rightarrow> (attempts, AnsweredNotFound)
      | Some hit \<Rightarrow> (takeWhile (\<lambda>(t, p). \<not> serve t reqCtx p) attempts @ [hit], Served))"

definition domain_scan_spec :: "(tree \<Rightarrow> RequestCtx \<Rightarrow> string \<Rightarrow> bool) \<Rightarrow> router \<Rightarrow> RequestCtx \<Rightarrow> dispatch" where
  "domain_scan_spec serve r reqCtx =
     first_full_match serve reqCtx
       (domain_attempts (methodMatch r) (Method reqCtx)
          (fulldomain_of (serverHost (station r)) (Host reqCtx)) (getRequestPath r reqCtx)
          (garden r))"

section \<open>Example inputs\<close>

text \<open>
  An instance of the parameter \<open>Plant\<close> for the examples, after the spec's description
  of \<open>Garden.plant\<close>: the route goes to the tree of its method and domain, and a new
  tree is appended when there is none. A route here carries no CORS information, so a
  new tree has \<open>cors = False\<close>.
\<close>

fun Plant_model :: "tree list \<Rightarrow> Route \<Rightarrow> tree list" where
  "Plant_model [] route =
     [\<lparr>tree_method = GetMethod route, domain = GetDomain route, hosts = (GetDomain route \<noteq> []),
       cors = False, planted = [route]\<rparr>]"
| "Plant_model (t # ts) route =
     (if tree_method t = GetMethod route \<and> domain t = GetDomain route
      then t\<lparr>planted := planted t @ [route]\<rparr> # ts
      else t # Plant_model ts route)"

definition ex_station :: Iris where
  "ex_station =
     \<lparr>config = \<lparr>DisablePathEscape = False, Profile = False, ProfilePath = []\<rparr>,
      serverHost = ''0.0.0.0:8080''\<rparr>"

definition ex_profiling_station :: Iris where
  "ex_profiling_station =
     \<lparr>config = \<lparr>DisablePathEscape = True, Profile = True, ProfilePath = ''/debug/pprof''\<rparr>,
      serverHost = ''0.0.0.0:8080''\<rparr>"

definition ex_home :: Route where
  "ex_home =
     \<lparr>GetName = ''home'', GetMethod = ''GET'', GetPath = ''/'', GetDomain = [],
      GetMiddleware = [UserHandler 0]\<rparr>"

definition ex_profile :: Route where
  "ex_profile =
     \<lparr>GetName = ''profile'', GetMethod = ''GET'',
      GetPath = ''/profile/:username/friends/:friendId'', GetDomain = [],
      GetMiddleware = [UserHandler 1]\<rparr>"

definition ex_profile_post :: Route where
  "ex_profile_post =
     \<lparr>GetName = ''profile'', GetMethod = ''POST'', GetPath = ''/profile'', GetDomain = [],
      GetMiddleware = [UserHandler 2]\<rparr>"

definition ex_nomethod :: Route where
  "ex_nomethod =
     \<lparr>GetName = ''legacy'', GetMethod = [], GetPath = ''/legacy/:id'', GetDomain = [],
      GetMiddleware = [UserHandler 3]\<rparr>"

definition ex_lookup_router :: router where
  "ex_lookup_router =
     addRoute Plant_model
       (addRoute Plant_model (addRoute Plant_model (newRouter ex_station) ex_home) ex_profile)
       ex_profile_post"

definition ex_legacy_router :: router where
  "ex_legacy_router =
     addRoute Plant_model (addRoute Plant_model (newRouter ex_station) ex_home) ex_nomethod"

definition ex_request :: RequestCtx where
  "ex_request = \<lparr>Method = ''GET'', Host = ''0.0.0.0:8080'', Path = ''/users/7'', RequestURI = ''/users/7''\<rparr>"

definition ex_get_tree :: tree where
  "ex_get_tree = \<lparr>tree_method = ''GET'', domain = [], hosts = False, cors = False, planted = [ex_home]\<rparr>"

definition ex_get_tree2 :: tree where
  "ex_get_tree2 = \<lparr>tree_method = ''GET'', domain = [], hosts = False, cors = False, planted = [ex_profile]\<rparr>"

definition ex_post_tree :: tree where
  "ex_post_tree = \<lparr>tree_method = ''POST'', domain = [], hosts = False, cors = False, planted = [ex_profile_post]\<rparr>"

definition ex_cors_tree :: tree where
  "ex_cors_tree = \<lparr>tree_method = ''POST'', domain = [], hosts = False, cors = True, planted = [ex_profile_post]\<rparr>"

definition ex_sub_tree :: tree where
  "ex_sub_tree =
     \<lparr>tree_method = ''GET'', domain = ''blog.example.com'', hosts = True, cors = False,
      planted = [ex_profile]\<rparr>"

definition ex_post_sub_tree :: tree where
  "ex_post_sub_tree =
     \<lparr>tree_method = ''POST'', domain = ''blog.example.com'', hosts = True, cors = False,
      planted = [ex_profile_post]\<rparr>"

definition ex_profiling_router :: router where
  "ex_profiling_router = (newRouter ex_profiling_station)\<lparr>garden := [ex_cors_tree, ex_sub_tree]\<rparr>"

definition ex_blog_request :: RequestCtx where
  "ex_blog_request =
     \<lparr>Method = ''GET'', Host = ''blog.example.com:8080'', Path = ''/users/7'',
      RequestURI = ''/users/7''\<rparr>"

definition ex_two_domain_router :: router where
  "ex_two_domain_router =
     (newRouter ex_station)\<lparr>garden := [ex_post_sub_tree, ex_sub_tree],
                             ServeRequest := ServeDomainFunc\<rparr>"

text \<open>
  A \<open>tree.serve\<close> of a trie that holds the route \<open>/users/:id\<close> of the subdomain
  \<open>blog.example.com\<close>: it matches in the tree \<open>ex_sub_tree\<close> the lookup path made
  of the subdomain and the request path, and nothing else.
\<close>

definition ex_serve_blog :: "tree \<Rightarrow> RequestCtx \<Rightarrow> string \<Rightarrow> bool" where
  "ex_serve_blog t reqCtx path = (planted t = [ex_profile] \<and> path = ''blog.example.com/users/7'')"

text \<open>A \<open>tree.serve\<close> for the examples: only the tree that holds \<open>ex_profile\<close> matches.\<close>

definition ex_serve :: "tree \<Rightarrow> RequestCtx \<Rightarrow> string \<Rightarrow> bool" where
  "ex_serve t reqCtx path = (planted t = [ex_profile])"

definition ex_two_get_router :: router where
  "ex_two_get_router = (newRouter ex_station)\<lparr>garden := [ex_post_tree, ex_get_tree, ex_get_tree2]\<rparr>"

definition ex_cors_router :: router where
  "ex_cors_router = (newRouter ex_station)\<lparr>garden := [ex_get_tree, ex_cors_tree]\<rparr>"

definition ex_plain_router :: router where
  "ex_plain_router = (newRouter ex_station)\<lparr>garden := [ex_get_tree, ex_post_tree]\<rparr>"

definition ex_pooled_router :: router where
  "ex_pooled_router = (newRouter ex_station)\<lparr>errorPool := [\<lparr>boundRequest = None\<rparr>]\<rparr>"

text \<open>Two error handlers: one that returns, one that panics.\<close>

definition handler_returns :: "Context \<Rightarrow> Context outcome" where
  "handler_returns ctx = Return ctx"

definition handler_panics :: "Context \<Rightarrow> Context outcome" where
  "handler_panics ctx = Panic"

section \<open>The name-based reverse lookup\<close>

lemma RouteByName_loop_absent:
  "\<forall>x\<in>set ls. GetName x \<noteq> n \<Longrightarrow> RouteByName_loop ls n = emptyRoute"
  by (induction ls) auto

lemma RouteByName_loop_first:
  "\<forall>x\<in>set pre. GetName x \<noteq> n \<Longrightarrow> GetName route = n \<Longrightarrow>
     RouteByName_loop (pre @ route # post) n = route"
  by (induction pre) auto

lemma lookups_ex_lookup_router:
  "lookups ex_lookup_router = [ex_home, ex_profile, ex_profile_post]"
  by (simp add: ex_lookup_router_def addRoute_def newRouter_def)

lemma lookups_ex_legacy_router:
  "lookups ex_legacy_router = [ex_home, ex_nomethod]"
  by (simp add: ex_legacy_router_def addRoute_def newRouter_def)

text \<open>
  Claim C7. \<open>RouteByName\<close> scans the registered routes in registration order and
  compares names exactly: when \<open>route\<close> is the first registered route whose name is
  \<open>routeName\<close> (no route before it has that name), it is the result; when no
  registered route has that name, the result is the empty route, whose path and method
  are empty.
\<close>

theorem RouteByName_linear_scan:
  "(lookups r = pre @ route # post \<and> (\<forall>x\<in>set pre. GetName x \<noteq> routeName) \<and>
      GetName route = routeName \<longrightarrow> RouteByName r routeName = route) \<and>
   ((\<forall>x\<in>set (lookups r). GetName x \<noteq> routeName) \<longrightarrow>
      RouteByName r routeName = emptyRoute \<and>
      GetPath (RouteByName r routeName) = [] \<and> GetMethod (RouteByName r routeName) = [])"
  by (simp add: RouteByName_def RouteByName_loop_first RouteByName_loop_absent emptyRoute_def)

text \<open>
  Two routes are named \<open>profile\<close>: the one registered first is returned. The name
  \<open>Profile\<close> differs in case from every registered name: the empty route is returned.
\<close>

theorem RouteByName_linear_scan_witness:
  "RouteByName ex_lookup_router ''profile'' = ex_profile \<and>
   RouteByName ex_lookup_router ''Profile'' = emptyRoute \<and>
   GetPath (RouteByName ex_lookup_router ''Profile'') = [] \<and>
   GetMethod (RouteByName ex_lookup_router ''Profile'') = []"
proof -
  have l: "lookups ex_lookup_router = [ex_home] @ ex_profile # [ex_profile_post]"
    by (simp add: lookups_ex_lookup_router)
  have a: "\<forall>x\<in>set [ex_home]. GetName x \<noteq> ''profile''"
    by (simp add: ex_home_def)
  have b: "GetName ex_profile = ''profile''"
    by (simp add: ex_profile_def)
  have c: "\<forall>x\<in>set (lookups ex_lookup_router). GetName x \<noteq> ''Profile''"
    by (simp add: lookups_ex_lookup_router ex_home_def ex_profile_def ex_profile_post_def)
  from RouteByName_linear_scan
         [of ex_lookup_router "[ex_home]" ex_profile "[ex_profile_post]" "''profile''"] l a b
  have 1: "RouteByName ex_lookup_router ''profile'' = ex_profile"
    by blast
  from RouteByName_linear_scan [of ex_lookup_router "[]" ex_profile "[]" "''Profile''"] c
  have 2: "RouteByName ex_lookup_router ''Profile'' = emptyRoute \<and>
      GetPath (RouteByName ex_lookup_router ''Profile'') = [] \<and>
      GetMethod (RouteByName ex_lookup_router ''Profile'') = []"
    by blast
  from 1 2 show ?thesis by blast
qed

text \<open>
  Claim C6. \<open>UriOf\<close> returns the route-not-found error exactly when the route that
  \<open>RouteByName\<close> resolves has an empty method, and then the uri is empty; otherwise it
  returns what \<open>ParseURI\<close> makes of the route and the arguments, with the nil error. A
  name that no registered route has yields the error. \<open>UriOf\<close> is a total function of
  the model: each of its two branches returns a pair.
\<close>

theorem UriOf_route_not_found:
  "(snd (UriOf ParseURI r routeName args) = Some (ErrRenderRouteNotFound routeName)
      \<longleftrightarrow> GetMethod (RouteByName r routeName) = []) \<and>
   (snd (UriOf ParseURI r routeName args) \<noteq> None
      \<longleftrightarrow> GetMethod (RouteByName r routeName) = []) \<and>
   (GetMethod (RouteByName r routeName) = [] \<longrightarrow>
      UriOf ParseURI r routeName args = ([], Some (ErrRenderRouteNotFound routeName))) \<and>
   (GetMethod (RouteByName r routeName) \<noteq> [] \<longrightarrow>
      UriOf ParseURI r routeName args = (ParseURI (RouteByName r routeName) args, None)) \<and>
   ((\<forall>x\<in>set (lookups r). GetName x \<noteq> routeName) \<longrightarrow>
      UriOf ParseURI r routeName args = ([], Some (ErrRenderRouteNotFound routeName)))"
  by (simp add: UriOf_def Let_def RouteByName_def RouteByName_loop_absent emptyRoute_def)

text \<open>
  With a stand-in for \<open>ParseURI\<close> that appends the arguments to the pattern: an
  unknown name yields the error, the route \<open>home\<close> yields its uri and no error.
\<close>

theorem UriOf_route_not_found_witness:
  "UriOf (\<lambda>route args. GetPath route @ concat args) ex_lookup_router ''missing'' []
     = ([], Some (ErrRenderRouteNotFound ''missing'')) \<and>
   UriOf (\<lambda>route args. GetPath route @ concat args) ex_lookup_router ''home'' [''x'']
     = (''/x'', None)"
proof -
  let ?P = "\<lambda>route args. GetPath route @ concat args"
  have c: "\<forall>x\<in>set (lookups ex_lookup_router). GetName x \<noteq> ''missing''"
    by (simp add: lookups_ex_lookup_router ex_home_def ex_profile_def ex_profile_post_def)
  have h: "RouteByName ex_lookup_router ''home'' = ex_home"
    by (simp add: RouteByName_def lookups_ex_lookup_router ex_home_def)
  have m: "GetMethod (RouteByName ex_lookup_router ''home'') \<noteq> []"
    by (simp add: h) (simp add: ex_home_def)
  from UriOf_route_not_found [of ?P ex_lookup_router "''missing''" "[]"] c
  have 1: "UriOf ?P ex_lookup_router ''missing'' [] = ([], Some (ErrRenderRouteNotFound ''missing''))"
    by blast
  from UriOf_route_not_found [of ?P ex_lookup_router "''home''" "[''x'']"] m
  have "UriOf ?P ex_lookup_router ''home'' [''x'']
          = (?P (RouteByName ex_lookup_router ''home'') [''x''], None)"
    by blast
  then have 2: "UriOf ?P ex_lookup_router ''home'' [''x''] = (''/x'', None)"
    by (simp add: h) (simp add: ex_home_def)
  from 1 2 show ?thesis by blast
qed

text \<open>
  Claim C10. A registered route with an empty method that is the first of its name is
  what \<open>RouteByName\<close> returns for that name, and \<open>UriOf\<close> on the same name reports
  the route-not-found error: the empty method of the route is read as absence.
\<close>

theorem UriOf_empty_method_registered:
  "lookups r = pre @ route # post \<Longrightarrow> \<forall>x\<in>set pre. GetName x \<noteq> GetName route \<Longrightarrow>
   GetMethod route = [] \<Longrightarrow>
     route \<in> set (lookups r) \<and> RouteByName r (GetName route) = route \<and>
     UriOf ParseURI r (GetName route) args = ([], Some (ErrRenderRouteNotFound (GetName route)))"
  by (simp add: UriOf_def Let_def RouteByName_def RouteByName_loop_first)

theorem UriOf_empty_method_registered_witness:
  "ex_nomethod \<in> set (lookups ex_legacy_router) \<and>
   RouteByName ex_legacy_router ''legacy'' = ex_nomethod \<and>
   UriOf (\<lambda>route args. GetPath route @ concat args) ex_legacy_router ''legacy'' [''7'']
     = ([], Some (ErrRenderRouteNotFound ''legacy''))"
proof -
  have l: "lookups ex_legacy_router = [ex_home] @ ex_nomethod # []"
    by (simp add: lookups_ex_legacy_router)
  have a: "\<forall>x\<in>set [ex_home]. GetName x \<noteq> GetName ex_nomethod"
    by (simp add: ex_home_def ex_nomethod_def)
  have m: "GetMethod ex_nomethod = []"
    by (simp add: ex_nomethod_def)
  have n: "GetName ex_nomethod = ''legacy''"
    by (simp add: ex_nomethod_def)
  from UriOf_empty_method_registered
         [OF l a m, of "\<lambda>route args. GetPath route @ concat args" "[''7'']"] n
  show ?thesis by simp
qed

section \<open>optimize\<close>

lemma foldl_has:
  "foldl (\<lambda>has t. if P t then True else has) b ts = (b \<or> (\<exists>t\<in>set ts. P t))"
  by (induction ts arbitrary: b) auto

lemma router_cors_iff: "router_cors r = (\<exists>t\<in>set (garden r). cors t)"
  by (simp add: router_cors_def foldl_has)

lemma router_hosts_iff: "router_hosts r = (\<exists>t\<in>set (garden r). hosts t)"
  by (simp add: router_hosts_def foldl_has)

lemma methodMatch_optimize:
  "\<not> optimized r \<Longrightarrow>
     methodMatch (optimize Plant r) = (if router_cors r then methodMatchCorsFunc else methodMatch r)"
  by (simp add: optimize_def Let_def router_Get_def addRoute_def)

text \<open>
  Claim C3. Let \<open>optimize\<close> run on a router that is not yet optimized and still has
  the method match of \<open>newRouter\<close>. If a tree of the garden it inspects has
  \<open>cors\<close> set, the method match afterwards holds of a tree method and a request method
  exactly when they are equal or the request method is \<open>OPTIONS\<close>; if no tree has, it
  is equality of the two strings.
\<close>

theorem optimize_methodMatch:
  "\<not> optimized r \<Longrightarrow> methodMatch r = methodMatchFunc \<Longrightarrow>
     ((\<exists>t\<in>set (garden r). cors t) \<longrightarrow>
        (methodMatch (optimize Plant r) treeMethod reqMethod \<longleftrightarrow>
           treeMethod = reqMethod \<or> reqMethod = ''OPTIONS'')) \<and>
     (\<not> (\<exists>t\<in>set (garden r). cors t) \<longrightarrow>
        (methodMatch (optimize Plant r) treeMethod reqMethod \<longleftrightarrow> treeMethod = reqMethod))"
  by (simp add: methodMatch_optimize router_cors_iff methodMatchCorsFunc_def methodMatchFunc_def
      MethodOptions_def)

text \<open>
  With a tree that has \<open>cors\<close> set, an \<open>OPTIONS\<close> request matches a \<open>GET\<close> tree
  and a \<open>POST\<close> request does not; without one, \<open>OPTIONS\<close> does not match it.
\<close>

theorem optimize_methodMatch_witness:
  "(methodMatch (optimize Plant_model ex_cors_router) ''GET'' ''OPTIONS'' \<longleftrightarrow> True) \<and>
   (methodMatch (optimize Plant_model ex_cors_router) ''GET'' ''POST'' \<longleftrightarrow> False) \<and>
   (methodMatch (optimize Plant_model ex_plain_router) ''GET'' ''OPTIONS'' \<longleftrightarrow> False) \<and>
   (methodMatch (optimize Plant_model ex_plain_router) ''GET'' ''GET'' \<longleftrightarrow> True)"
proof -
  have c1: "\<not> optimized ex_cors_router" and c2: "methodMatch ex_cors_router = methodMatchFunc"
    by (simp_all add: ex_cors_router_def newRouter_def)
  have p1: "\<not> optimized ex_plain_router" and p2: "methodMatch ex_plain_router = methodMatchFunc"
    by (simp_all add: ex_plain_router_def newRouter_def)
  have c3: "\<exists>t\<in>set (garden ex_cors_router). cors t"
    by (simp add: ex_cors_router_def ex_cors_tree_def)
  have p3: "\<not> (\<exists>t\<in>set (garden ex_plain_router). cors t)"
    by (simp add: ex_plain_router_def ex_get_tree_def ex_post_tree_def)
  from optimize_methodMatch [OF c1 c2, of Plant_model "''GET''" "''OPTIONS''"] c3
  have 1: "methodMatch (optimize Plant_model ex_cors_router) ''GET'' ''OPTIONS''" by simp
  from optimize_methodMatch [OF c1 c2, of Plant_model "''GET''" "''POST''"] c3
  have 2: "\<not> methodMatch (optimize Plant_model ex_cors_router) ''GET'' ''POST''" by simp
  from optimize_methodMatch [OF p1 p2, of Plant_model "''GET''" "''OPTIONS''"] p3
  have 3: "\<not> methodMatch (optimize Plant_model ex_plain_router) ''GET'' ''OPTIONS''" by simp
  from optimize_methodMatch [OF p1 p2, of Plant_model "''GET''" "''GET''"] p3
  have 4: "methodMatch (optimize Plant_model ex_plain_router) ''GET'' ''GET''" by simp
  from 1 2 3 4 show ?thesis by simp
qed

text \<open>
  Claim C5. \<open>optimize\<close> sets the latch \<open>optimized\<close>; on a router whose latch is set
  it changes nothing; so a second call returns the router of the first call, with the
  same strategy functions, routes and trees.
\<close>

theorem optimize_idempotent:
  "optimized (optimize Plant r) \<and>
   (optimized r \<longrightarrow> optimize Plant r = r) \<and>
   optimize Plant (optimize Plant r) = optimize Plant r"
proof -
  have a: "optimized (optimize Plant r)"
    by (simp add: optimize_def Let_def)
  have b: "optimized r' \<Longrightarrow> optimize Plant r' = r'" for r'
    by (simp add: optimize_def)
  from a b [OF a] b show ?thesis by blast
qed

text \<open>
  A router with a CORS tree and a host-scoped tree, raw paths and profiling enabled: the
  first call rebinds the three strategy fields and registers the profiling route, and
  the second call registers nothing more.
\<close>

lemma optimize_ex_profiling_router:
  "optimize Plant_model ex_profiling_router =
     \<lparr>station = ex_profiling_station,
      garden = [ex_cors_tree, ex_sub_tree,
        \<lparr>tree_method = ''GET'', domain = [], hosts = False, cors = False,
         planted = [\<lparr>GetName = [], GetMethod = ''GET'', GetPath = ''/debug/pprof/*action'',
                      GetDomain = [], GetMiddleware = [HtmlMiddleware, PprofAction]\<rparr>]\<rparr>],
      methodMatch = methodMatchCorsFunc, getRequestPath = RequestURI,
      lookups = [\<lparr>GetName = [], GetMethod = ''GET'', GetPath = ''/debug/pprof/*action'',
                   GetDomain = [], GetMiddleware = [HtmlMiddleware, PprofAction]\<rparr>],
      ServeRequest = ServeDomainFunc, errorPool = [], optimized = True\<rparr>"
  by (simp add: optimize_def Let_def ex_profiling_router_def newRouter_def router_cors_def
      router_hosts_def ex_cors_tree_def ex_sub_tree_def ex_profiling_station_def router_Get_def
      addRoute_def MethodGet_def newContextPool_def)

theorem optimize_idempotent_witness:
  "optimized (optimize Plant_model ex_profiling_router) \<and>
   optimize Plant_model (optimize Plant_model ex_profiling_router)
     = optimize Plant_model ex_profiling_router \<and>
   length (lookups (optimize Plant_model (optimize Plant_model ex_profiling_router))) = 1 \<and>
   ServeRequest (optimize Plant_model (optimize Plant_model ex_profiling_router)) = ServeDomainFunc"
proof -
  let ?r1 = "optimize Plant_model ex_profiling_router"
  from optimize_idempotent [of Plant_model ex_profiling_router]
  have a: "optimized ?r1" and c: "optimize Plant_model ?r1 = ?r1"
    by blast+
  from optimize_idempotent [of Plant_model ?r1] a
  have b: "optimize Plant_model ?r1 = ?r1"
    by blast
  have l: "length (lookups ?r1) = 1" and s: "ServeRequest ?r1 = ServeDomainFunc"
    by (simp_all add: optimize_ex_profiling_router)
  from a b l s show ?thesis by simp
qed

section \<open>notFound and the pool of contexts\<close>

text \<open>
  Claim C8, as amended. When the error handler returns, \<open>notFound\<close> puts the context
  back: the pool afterwards is the context in front of what \<open>Get\<close> left. When the
  error handler panics, \<open>notFound\<close> ends with the panic and the pool is what
  \<open>Get\<close> left: the context is not put back.
\<close>

theorem notFound_pool:
  "(NotFound (Reset (fst (pool_Get (errorPool r))) reqCtx) = Return ctx2 \<longrightarrow>
      fst (notFound NotFound r reqCtx) = Return (snd (notFound NotFound r reqCtx)) \<and>
      errorPool (snd (notFound NotFound r reqCtx)) = ctx2 # snd (pool_Get (errorPool r))) \<and>
   (NotFound (Reset (fst (pool_Get (errorPool r))) reqCtx) = Panic \<longrightarrow>
      fst (notFound NotFound r reqCtx) = Panic \<and>
      errorPool (snd (notFound NotFound r reqCtx)) = snd (pool_Get (errorPool r)))"
  by (simp add: notFound_def Let_def pool_Put_def split: prod.splits)

theorem notFound_pool_witness:
  "errorPool ex_pooled_router = [\<lparr>boundRequest = None\<rparr>] \<and>
   errorPool (snd (notFound handler_returns ex_pooled_router ex_request)) = [\<lparr>boundRequest = Some ex_request\<rparr>] \<and>
   fst (notFound handler_panics ex_pooled_router ex_request) = Panic \<and>
   errorPool (snd (notFound handler_panics ex_pooled_router ex_request)) = []"
proof -
  have e: "errorPool ex_pooled_router = [\<lparr>boundRequest = None\<rparr>]"
    by (simp add: ex_pooled_router_def)
  have g: "pool_Get (errorPool ex_pooled_router) = (\<lparr>boundRequest = None\<rparr>, [])"
    by (simp add: e pool_Get_def)
  have a: "handler_returns (Reset (fst (pool_Get (errorPool ex_pooled_router))) ex_request)
             = Return \<lparr>boundRequest = Some ex_request\<rparr>"
    by (simp add: g handler_returns_def Reset_def)
  have b: "handler_panics (Reset (fst (pool_Get (errorPool ex_pooled_router))) ex_request) = Panic"
    by (simp add: handler_panics_def)
  from notFound_pool [of handler_returns ex_pooled_router ex_request "\<lparr>boundRequest = Some ex_request\<rparr>"] a g
  have 1: "errorPool (snd (notFound handler_returns ex_pooled_router ex_request)) = [\<lparr>boundRequest = Some ex_request\<rparr>]"
    by simp
  from notFound_pool [of handler_panics ex_pooled_router ex_request] b g
  have 2: "fst (notFound handler_panics ex_pooled_router ex_request) = Panic \<and>
     errorPool (snd (notFound handler_panics ex_pooled_router ex_request)) = []"
    by simp
  from e 1 2 show ?thesis by simp
qed

text \<open>
  The claim as stated fails: a pool of one context is empty after a \<open>notFound\<close>
  whose error handler panics.
\<close>

theorem notFound_panic_counterexample:
  "fst (notFound handler_panics ex_pooled_router ex_request) = Panic \<and>
   errorPool ex_pooled_router = [\<lparr>boundRequest = None\<rparr>] \<and>
   errorPool (snd (notFound handler_panics ex_pooled_router ex_request)) = []"
  by (simp add: notFound_def Let_def pool_Get_def ex_pooled_router_def handler_panics_def)

section \<open>Dispatch without domains\<close>

lemma serveFunc_loop_find:
  "serveFunc_loop mm serve reqCtx meth path ts =
     (case find (\<lambda>t. mm (tree_method t) meth) ts of
        None \<Rightarrow> ([], AnsweredNotFound)
      | Some t \<Rightarrow> ([(t, path)], if serve t reqCtx path then Served else AnsweredNotFound))"
  by (induction ts) auto

text \<open>
  Claim C2. \<open>serveFunc\<close> looks for the first tree, in list order, whose method
  matches the request method. If there is none, no tree is served and the answer is
  not-found. If there is one, it is the only tree served, with the request path: the
  request is handled when its \<open>serve\<close> returns true and answered not-found
  otherwise, whatever trees follow.
\<close>

theorem serveFunc_first_method_match:
  "serveFunc serve r reqCtx =
     (case find (\<lambda>t. methodMatch r (tree_method t) (Method reqCtx)) (garden r) of
        None \<Rightarrow> ([], AnsweredNotFound)
      | Some t \<Rightarrow>
          ([(t, getRequestPath r reqCtx)],
           if serve t reqCtx (getRequestPath r reqCtx) then Served else AnsweredNotFound))"
  by (simp add: serveFunc_def Let_def serveFunc_loop_find)

text \<open>
  Two \<open>GET\<close> trees: the first does not match the path and the second would; the
  request is answered not-found after the first. A \<open>PUT\<close> request matches no tree.
\<close>

theorem serveFunc_first_method_match_witness:
  "serveFunc ex_serve ex_two_get_router ex_request = ([(ex_get_tree, ''/users/7'')], AnsweredNotFound) \<and>
   ex_serve ex_get_tree2 ex_request ''/users/7'' \<and>
   serveFunc ex_serve ex_two_get_router (ex_request\<lparr>Method := ''PUT''\<rparr>) = ([], AnsweredNotFound)"
proof -
  have f: "find (\<lambda>t. methodMatch ex_two_get_router (tree_method t) (Method ex_request))
             (garden ex_two_get_router) = Some ex_get_tree"
    by (simp add: ex_two_get_router_def newRouter_def methodMatchFunc_def ex_request_def
        ex_post_tree_def ex_get_tree_def)
  have g: "find (\<lambda>t. methodMatch ex_two_get_router (tree_method t) (Method (ex_request\<lparr>Method := ''PUT''\<rparr>)))
             (garden ex_two_get_router) = None"
    by (simp add: ex_two_get_router_def newRouter_def methodMatchFunc_def
        ex_post_tree_def ex_get_tree_def ex_get_tree2_def)
  have p: "getRequestPath ex_two_get_router ex_request = ''/users/7''"
    by (simp add: ex_two_get_router_def newRouter_def getRequestPathDefault_def ex_request_def)
  have s: "\<not> ex_serve ex_get_tree ex_request ''/users/7''"
    by (simp add: ex_serve_def ex_get_tree_def ex_home_def ex_profile_def)
  have s2: "ex_serve ex_get_tree2 ex_request ''/users/7''"
    by (simp add: ex_serve_def ex_get_tree2_def)
  from serveFunc_first_method_match [of ex_serve ex_two_get_router ex_request] f p s
  have 1: "serveFunc ex_serve ex_two_get_router ex_request = ([(ex_get_tree, ''/users/7'')], AnsweredNotFound)"
    by simp
  from serveFunc_first_method_match [of ex_serve ex_two_get_router "ex_request\<lparr>Method := ''PUT''\<rparr>"] g
  have 2: "serveFunc ex_serve ex_two_get_router (ex_request\<lparr>Method := ''PUT''\<rparr>) = ([], AnsweredNotFound)"
    by simp
  from 1 2 s2 show ?thesis by simp
qed

section \<open>Dispatch with domains\<close>

subsection \<open>The library functions on one-character and general substrings\<close>

lemma Count_single: "Count s [c] = count_list s c"
proof (induction s)
  case Nil
  show ?case by (subst Count.simps) simp
next
  case (Cons a s)
  show ?case by (subst Count.simps) (auto simp: Cons)
qed

lemma Index_from_single:
  "Index_from i s [c] =
     (if c \<in> set s then int (i + length (takeWhile (\<lambda>x. x \<noteq> c) s)) else - 1)"
  by (induction s arbitrary: i) auto

lemma Index_from_range: "Index_from i s substr = - 1 \<or> int i \<le> Index_from i s substr"
  by (induction s arbitrary: i) (auto, force)

lemma Index_from_sublist: "Index_from i s substr \<noteq> - 1 \<longleftrightarrow> sublist substr s"
proof (induction s arbitrary: i)
  case Nil
  show ?case by simp
next
  case (Cons c s)
  show ?case by (simp add: Cons sublist_Cons_right)
qed

lemma Index_sublist: "Index s substr \<noteq> - 1 \<longleftrightarrow> sublist substr s"
  by (simp add: Index_def Index_from_sublist)

lemma fulldomain_of_eq:
  "fulldomain_of srvHost host =
     (if 2 \<le> count_list host (CHR ''.'') \<and> host \<noteq> srvHost
      then takeWhile (\<lambda>x. x \<noteq> CHR '':'') host else [])"
proof (cases "CHR '':'' \<in> set host")
  case True
  then show ?thesis
    by (simp add: fulldomain_of_def Count_single Index_def Index_from_single Let_def
        takeWhile_eq_take [symmetric])
next
  case False
  then have tw: "takeWhile (\<lambda>x. x \<noteq> CHR '':'') host = host"
    by (auto simp: takeWhile_eq_all_conv)
  from False show ?thesis
    by (simp add: fulldomain_of_def Count_single Index_def Index_from_single Let_def tw)
qed

subsection \<open>The full domain\<close>

text \<open>
  Claim C4, as amended. The full domain is non-empty (a subdomain is present) exactly
  when the host has at least two dots, differs from the host the server is bound to and
  does not begin with a colon; it is then the host up to its first colon (the whole host
  when it has none).
\<close>

theorem fulldomain_present:
  "(fulldomain_of srvHost host \<noteq> [] \<longleftrightarrow>
      2 \<le> count_list host (CHR ''.'') \<and> host \<noteq> srvHost \<and> \<not> prefix '':'' host) \<and>
   (fulldomain_of srvHost host \<noteq> [] \<longrightarrow>
      fulldomain_of srvHost host = takeWhile (\<lambda>c. c \<noteq> CHR '':'') host)"
  by (cases host) (auto simp: fulldomain_of_eq)

theorem fulldomain_present_witness:
  "fulldomain_of ''0.0.0.0:8080'' ''blog.example.com:8080'' = ''blog.example.com'' \<and>
   fulldomain_of ''0.0.0.0:8080'' ''example.com:8080'' = [] \<and>
   fulldomain_of ''0.0.0.0:8080'' ''0.0.0.0:8080'' = []"
proof -
  have a: "2 \<le> count_list ''blog.example.com:8080'' (CHR ''.'') \<and>
      ''blog.example.com:8080'' \<noteq> ''0.0.0.0:8080'' \<and> \<not> prefix '':'' ''blog.example.com:8080''"
    by simp
  from fulldomain_present [of "''0.0.0.0:8080''" "''blog.example.com:8080''"] a
  have "fulldomain_of ''0.0.0.0:8080'' ''blog.example.com:8080''
          = takeWhile (\<lambda>c. c \<noteq> CHR '':'') ''blog.example.com:8080''"
    by blast
  then have 1: "fulldomain_of ''0.0.0.0:8080'' ''blog.example.com:8080'' = ''blog.example.com''"
    by simp
  have b: "\<not> 2 \<le> count_list ''example.com:8080'' (CHR ''.'')"
    by simp
  from fulldomain_present [of "''0.0.0.0:8080''" "''example.com:8080''"] b
  have 2: "fulldomain_of ''0.0.0.0:8080'' ''example.com:8080'' = []"
    by blast
  from fulldomain_present [of "''0.0.0.0:8080''" "''0.0.0.0:8080''"]
  have 3: "fulldomain_of ''0.0.0.0:8080'' ''0.0.0.0:8080'' = []"
    by blast
  from 1 2 3 show ?thesis by blast
qed

text \<open>
  The claim as stated fails for a host that begins with a colon: it has two dots and
  differs from the bound host, and the full domain is empty.
\<close>

theorem fulldomain_colon_counterexample:
  "2 \<le> count_list '':8080.example.com'' (CHR ''.'') \<and>
   2 \<le> Count '':8080.example.com'' ''.'' \<and>
   '':8080.example.com'' \<noteq> ''0.0.0.0:8080'' \<and>
   fulldomain_of ''0.0.0.0:8080'' '':8080.example.com'' = []"
  by (simp add: fulldomain_of_eq Count_single)

subsection \<open>The scan\<close>

lemma lookup_path_spec_eq: "lookup_path_spec fd t path = domain_path fd t path"
  by (simp add: lookup_path_spec_def domain_path_def Index_sublist)

lemma first_full_match_Cons:
  "first_full_match serve reqCtx ((t, p) # rest) =
     (if serve t reqCtx p then ([(t, p)], Served)
      else (let (calls, ans) = first_full_match serve reqCtx rest in ((t, p) # calls, ans)))"
  by (simp add: first_full_match_def split: option.splits)

lemma first_full_match_Nil: "first_full_match serve reqCtx [] = ([], AnsweredNotFound)"
  by (simp add: first_full_match_def)

text \<open>
  Where no tree of the list rewrites the path (no subdomain was derived, or no
  host-scoped tree is of the subdomain or dynamic), the loop of \<open>serveDomainFunc\<close> is
  the scan of the specification.
\<close>

lemma serveDomainFunc_loop_without_rewrite:
  "\<forall>t\<in>set ts. domain_path fd t path = path \<Longrightarrow>
     serveDomainFunc_loop mm serve reqCtx meth fd path ts =
       first_full_match serve reqCtx (domain_attempts mm meth fd path ts)"
proof (induction ts)
  case Nil
  show ?case by (simp add: first_full_match_Nil domain_attempts_def)
next
  case (Cons t ts)
  then have ih: "serveDomainFunc_loop mm serve reqCtx meth fd path ts =
      first_full_match serve reqCtx (domain_attempts mm meth fd path ts)"
    and p: "domain_path fd t path = path"
    by simp_all
  have c: "domain_attempts mm meth fd path (t # ts) =
      (if mm (tree_method t) meth then [(t, path)] else []) @ domain_attempts mm meth fd path ts"
    by (simp add: domain_attempts_def lookup_path_spec_eq p)
  show ?case
    by (simp add: c p ih first_full_match_Cons Let_def)
qed

text \<open>
  Claim C1. The scan of the specification serves each method-matching tree, in
  registration order, with the request path behind that tree's own prefix, and the
  first full match wins. \<open>serveDomainFunc\<close> does not do that for every request: with
  a \<open>POST\<close> tree and a \<open>GET\<close> tree of the subdomain \<open>blog.example.com\<close>, in this
  order, and the request \<open>GET /users/7\<close> for that host, the \<open>GET\<close> tree matches the
  subdomain followed by the path, and the scan of the specification serves it with that
  lookup path and handles the request; \<open>serveDomainFunc\<close> serves it with the
  subdomain twice in front of the path, the first time from the \<open>POST\<close> tree, and
  answers not-found.
\<close>

theorem serveDomainFunc_prefix_carried_over:
  "ex_serve_blog ex_sub_tree ex_blog_request ''blog.example.com/users/7'' \<and>
   domain_scan_spec ex_serve_blog ex_two_domain_router ex_blog_request
     = ([(ex_sub_tree, ''blog.example.com/users/7'')], Served) \<and>
   serveDomainFunc ex_serve_blog ex_two_domain_router ex_blog_request
     = ([(ex_sub_tree, ''blog.example.comblog.example.com/users/7'')], AnsweredNotFound)"
proof -
  have fd: "fulldomain_of (serverHost (station ex_two_domain_router)) (Host ex_blog_request)
              = ''blog.example.com''"
    by (simp add: fulldomain_of_eq ex_two_domain_router_def newRouter_def ex_station_def
        ex_blog_request_def)
  have mm: "methodMatch ex_two_domain_router = methodMatchFunc"
    and g: "garden ex_two_domain_router = [ex_post_sub_tree, ex_sub_tree]"
    and p: "getRequestPath ex_two_domain_router ex_blog_request = ''/users/7''"
    and m: "Method ex_blog_request = ''GET''"
    by (simp_all add: ex_two_domain_router_def newRouter_def getRequestPathDefault_def
        ex_blog_request_def)
  have m1: "\<not> methodMatchFunc (tree_method ex_post_sub_tree) ''GET''"
    and m2: "methodMatchFunc (tree_method ex_sub_tree) ''GET''"
    by (simp_all add: methodMatchFunc_def ex_post_sub_tree_def ex_sub_tree_def)
  have d1: "domain_path ''blog.example.com'' ex_post_sub_tree ''/users/7''
              = ''blog.example.com/users/7''"
    by (simp add: domain_path_def ex_post_sub_tree_def)
  have d2: "domain_path ''blog.example.com'' ex_sub_tree ''/users/7''
              = ''blog.example.com/users/7''"
    by (simp add: domain_path_def ex_sub_tree_def)
  have d3: "domain_path ''blog.example.com'' ex_sub_tree ''blog.example.com/users/7''
              = ''blog.example.comblog.example.com/users/7''"
    by (simp add: domain_path_def ex_sub_tree_def)
  have s1: "ex_serve_blog ex_sub_tree ex_blog_request ''blog.example.com/users/7''"
    by (simp add: ex_serve_blog_def ex_sub_tree_def)
  have s2: "\<not> ex_serve_blog ex_sub_tree ex_blog_request
              ''blog.example.comblog.example.com/users/7''"
    by (simp add: ex_serve_blog_def)
  have att: "domain_attempts methodMatchFunc ''GET'' ''blog.example.com'' ''/users/7''
               [ex_post_sub_tree, ex_sub_tree]
             = [(ex_sub_tree, ''blog.example.com/users/7'')]"
    by (simp add: domain_attempts_def lookup_path_spec_eq m1 m2 d2)
  have spec: "domain_scan_spec ex_serve_blog ex_two_domain_router ex_blog_request
     = ([(ex_sub_tree, ''blog.example.com/users/7'')], Served)"
    using s1 by (simp add: domain_scan_spec_def fd mm g p m att first_full_match_Cons)
  have code: "serveDomainFunc ex_serve_blog ex_two_domain_router ex_blog_request
     = ([(ex_sub_tree, ''blog.example.comblog.example.com/users/7'')], AnsweredNotFound)"
    using s2 by (simp add: serveDomainFunc_def Let_def fd mm g p m m1 m2 d1 d3)
  from s1 spec code show ?thesis by blast
qed

subsection \<open>The shared path variable\<close>

lemma domain_path_append: "domain_path fd t p = domain_path fd t [] @ p"
  by (simp add: domain_path_def)

lemma serveDomainFunc_loop_append:
  "serveDomainFunc_loop mm serve reqCtx meth fd path (pre @ rest) =
     (case serveDomainFunc_loop mm serve reqCtx meth fd path pre of
        (calls, Served) \<Rightarrow> (calls, Served)
      | (calls, AnsweredNotFound) \<Rightarrow>
          (let (calls2, ans) =
                 serveDomainFunc_loop mm serve reqCtx meth fd
                   (concat (rev (map (\<lambda>t. domain_path fd t []) pre)) @ path) rest
           in (calls @ calls2, ans)))"
proof (induction pre arbitrary: path)
  case Nil
  show ?case by (simp split: prod.splits)
next
  case (Cons t pre)
  have p: "concat (rev (map (\<lambda>t. domain_path fd t []) pre)) @ domain_path fd t path
             = concat (rev (map (\<lambda>t. domain_path fd t []) (t # pre))) @ path"
    using domain_path_append [of fd t path] by simp
  show ?case
    unfolding append_Cons serveDomainFunc_loop.simps Let_def Cons p
    by (simp split: prod.splits answer.splits)
qed

text \<open>
  Claim C9. The variable \<open>path\<close> is carried from one tree to the next. After the
  trees \<open>pre\<close>, none of which handled the request, the remaining trees are scanned
  with the prefixes of all trees in \<open>pre\<close> in front of the request path, the latest
  first; what a tree adds (\<open>domain_path fd t []\<close>) does not depend on its method. So
  a host-scoped tree of the full domain whose method does not match still hands the
  prefixed path to the trees after it, and a second such tree whose method matches is
  served with the full domain twice in front of the path.
\<close>

theorem serveDomainFunc_path_accumulates:
  "serveDomainFunc_loop mm serve reqCtx meth fd path (pre @ rest) =
     (case serveDomainFunc_loop mm serve reqCtx meth fd path pre of
        (calls, Served) \<Rightarrow> (calls, Served)
      | (calls, AnsweredNotFound) \<Rightarrow>
          (let (calls2, ans) =
                 serveDomainFunc_loop mm serve reqCtx meth fd
                   (concat (rev (map (\<lambda>t. domain_path fd t []) pre)) @ path) rest
           in (calls @ calls2, ans))) \<and>
   (hosts t \<and> domain t = fd \<and> fd \<noteq> [] \<and> \<not> mm (tree_method t) meth \<longrightarrow>
      serveDomainFunc_loop mm serve reqCtx meth fd path (t # rest)
        = serveDomainFunc_loop mm serve reqCtx meth fd (fd @ path) rest) \<and>
   (hosts t \<and> domain t = fd \<and> hosts t' \<and> domain t' = fd \<and> fd \<noteq> [] \<and>
      \<not> mm (tree_method t) meth \<and> mm (tree_method t') meth \<longrightarrow>
      hd (fst (serveDomainFunc_loop mm serve reqCtx meth fd path (t # t' # rest)))
        = (t', fd @ fd @ path))"
proof -
  have a: "hosts t \<and> domain t = fd \<and> fd \<noteq> [] \<Longrightarrow> domain_path fd t q = fd @ q"
    for t :: tree and q
    by (simp add: domain_path_def)
  show ?thesis
    using serveDomainFunc_loop_append [of mm serve reqCtx meth fd path pre rest]
    by (auto simp: a Let_def split: prod.splits)
qed

theorem serveDomainFunc_path_accumulates_witness:
  "serveDomainFunc_loop methodMatchFunc ex_serve ex_blog_request ''GET'' ''blog.example.com''
     ''/users/7'' [ex_post_sub_tree, ex_sub_tree]
     = ([(ex_sub_tree, ''blog.example.comblog.example.com/users/7'')], Served) \<and>
   hd (fst (serveDomainFunc_loop methodMatchFunc ex_serve ex_blog_request ''GET''
     ''blog.example.com'' ''/users/7'' [ex_post_sub_tree, ex_sub_tree]))
     = (ex_sub_tree, ''blog.example.com'' @ ''blog.example.com'' @ ''/users/7'')"
proof -
  have h: "hosts ex_post_sub_tree \<and> domain ex_post_sub_tree = ''blog.example.com'' \<and>
      hosts ex_sub_tree \<and> domain ex_sub_tree = ''blog.example.com'' \<and> ''blog.example.com'' \<noteq> [] \<and>
      \<not> methodMatchFunc (tree_method ex_post_sub_tree) ''GET'' \<and> methodMatchFunc (tree_method ex_sub_tree) ''GET''"
    by (simp add: ex_post_sub_tree_def ex_sub_tree_def methodMatchFunc_def)
  have d: "domain_path ''blog.example.com'' ex_sub_tree ''blog.example.com/users/7''
             = ''blog.example.comblog.example.com/users/7''"
    by (simp add: domain_path_def ex_sub_tree_def)
  have s: "ex_serve ex_sub_tree ex_blog_request ''blog.example.comblog.example.com/users/7''"
    by (simp add: ex_serve_def ex_sub_tree_def)
  have l: "serveDomainFunc_loop methodMatchFunc ex_serve ex_blog_request ''GET''
             ''blog.example.com'' ''blog.example.com/users/7'' [ex_sub_tree]
           = ([(ex_sub_tree, ''blog.example.comblog.example.com/users/7'')], Served)"
    using h s by (simp add: d)
  from serveDomainFunc_path_accumulates [of methodMatchFunc ex_serve ex_blog_request "''GET''"
      "''blog.example.com''" "''/users/7''" "[]" "[ex_sub_tree]" ex_post_sub_tree ex_sub_tree] h l
  have 1: "serveDomainFunc_loop methodMatchFunc ex_serve ex_blog_request ''GET'' ''blog.example.com''
     ''/users/7'' [ex_post_sub_tree, ex_sub_tree]
     = ([(ex_sub_tree, ''blog.example.comblog.example.com/users/7'')], Served)"
    by simp
  from serveDomainFunc_path_accumulates [of methodMatchFunc ex_serve ex_blog_request "''GET''"
      "''blog.example.com''" "''/users/7''" "[]" "[]" ex_post_sub_tree ex_sub_tree] h
  have 2: "hd (fst (serveDomainFunc_loop methodMatchFunc ex_serve ex_blog_request ''GET''
     ''blog.example.com'' ''/users/7'' [ex_post_sub_tree, ex_sub_tree]))
     = (ex_sub_tree, ''blog.example.com'' @ ''blog.example.com'' @ ''/users/7'')"
    by blast
  from 1 2 show ?thesis by blast
qed

end
